theory Spec2Isabelle
  imports Main "HOL-Library.Sublist"
begin

section \<open>The build orchestrator of scripts/build.py\<close>

text \<open>
  The script reads lines \<open><name> <version> <recipe path>\<close> from standard input and, for
  each of them, runs \<open>conda build\<close> in a Docker container. The model below follows the
  script top to bottom: the parsed command line is a record, the outside world (the exit
  status of \<open>docker pull\<close>, the result of \<open>docker run\<close>, the platform's text decoding)
  is a record of functions of the history so far, and everything the script does to that
  world is appended to a trace of events. An exception that the script does not catch is
  the field \<open>raised\<close> of the state; the loop stops as soon as it is set.

  Text is a \<open>string\<close>, one \<open>char\<close> for each character; the bytes captured from a process
  are a \<open>char list\<close> as well, one \<open>char\<close> for each byte.
\<close>

subsection \<open>Command line\<close>

record args =
  recipes_dir :: string
  recipes_mount :: string
  artefacts_dir :: string
  artefacts_mount :: string
  build_channel :: "string list"
  irods_build_image :: string
  conda_build_image :: string
  remove_container :: bool
  conda_uid :: int
  conda_gid :: int
  dry_run :: bool
  debug :: bool
  verbose :: bool

subsection \<open>Logging\<close>

datatype level = DEBUG | INFO | ERROR

fun severity :: "level \<Rightarrow> nat" where
  "severity DEBUG = 10"
| "severity INFO = 20"
| "severity ERROR = 40"

text \<open>Lines 118 to 123: the threshold handed to \<open>log.basicConfig\<close>.\<close>

definition level :: "args \<Rightarrow> level" where
  "level a = (if debug a then DEBUG else if verbose a \<or> dry_run a then INFO else ERROR)"

text \<open>
  What a logging call is given. The text that Python formats from it (the \<open>%s\<close>
  substitution, the \<open>repr\<close> of the argument list) is not modelled: a message keeps the
  values themselves.
\<close>

datatype message =
    WorkingOn string string string
  | UsingImage string
  | DockerCommand "string list"
  | BuildScript string
  | BeginOutput
  | OutputLine string
  | EndOutput

subsection \<open>Events, errors, the outside world\<close>

datatype event =
    Pull string
  | Run "string list" int string
  | Log level message

datatype error = ValueError | CalledProcessError | UnicodeDecodeError | OSError

text \<open>
  \<open>pull_status\<close> is the exit status of \<open>docker pull image\<close> and \<open>run_result\<close> the exit
  status and the combined standard output and error of \<open>docker run ...\<close>, both after the given
  history; \<open>decode\<close> is \<open>bytes.decode(sys.getfilesystemencoding())\<close>, \<open>None\<close> where it raises.
  \<open>launch_fails\<close> says that the operating system does not start the process that
  \<open>subprocess.run\<close> is given (no \<open>docker\<close> on the path, an argument list that is too long):
  the call then raises \<open>OSError\<close>, which stands here for every exception of the start of a
  process that depends on the platform.
\<close>

record env =
  pull_status :: "event list \<Rightarrow> string \<Rightarrow> int"
  launch_fails :: "event list \<Rightarrow> string list \<Rightarrow> bool"
  run_result :: "event list \<Rightarrow> string list \<Rightarrow> int \<times> string"
  decode :: "string \<Rightarrow> string option"

record state =
  trace :: "event list"
  fail :: bool
  raised :: "error option"

definition emit :: "event \<Rightarrow> state \<Rightarrow> state" where
  "emit ev s = s\<lparr>trace := trace s @ [ev]\<rparr>"

definition raise :: "error \<Rightarrow> state \<Rightarrow> state" where
  "raise err s = s\<lparr>raised := Some err\<rparr>"

text \<open>
  Lines 30 and 31: \<open>subprocess.check_output\<close> raises \<open>CalledProcessError\<close> when the
  process exits with a status other than 0; no caller catches it.
\<close>

definition docker_pull :: "env \<Rightarrow> string \<Rightarrow> state \<Rightarrow> state" where
  "docker_pull e img s =
     (let s' = emit (Pull img) s
      in if pull_status e (trace s) img = 0 then s' else raise CalledProcessError s')"

subsection \<open>Strings\<close>

text \<open>
  \<open>str.split()\<close> with no argument: the fields are the maximal runs of characters that
  are not whitespace. The whitespace characters below 256 are those of \<open>str.isspace\<close>.
\<close>

definition is_space :: "char \<Rightarrow> bool" where
  "is_space c = (of_char c \<in> {9, 10, 11, 12, 13, 28, 29, 30, 31, 32, 133, 160 :: nat})"

fun split_from :: "string \<Rightarrow> string \<Rightarrow> string list" where
  "split_from tok [] = (if tok = [] then [] else [tok])"
| "split_from tok (c # cs) =
     (if is_space c then (if tok = [] then split_from [] cs else tok # split_from [] cs)
      else split_from (tok @ [c]) cs)"

definition str_split :: "string \<Rightarrow> string list" where
  "str_split s = split_from [] s"

text \<open>\<open>str.split("\n")\<close>: the pieces between line feeds, empty ones kept.\<close>

fun split_nl_from :: "string \<Rightarrow> string \<Rightarrow> string list" where
  "split_nl_from piece [] = [piece]"
| "split_nl_from piece (c # cs) =
     (if c = CHR 0x0A then piece # split_nl_from [] cs else split_nl_from (piece @ [c]) cs)"

definition split_nl :: "string \<Rightarrow> string list" where
  "split_nl s = split_nl_from [] s"

text \<open>\<open>"{}".format(n)\<close> for an integer: its decimal digits, with a sign when negative.\<close>

fun str_nat :: "nat \<Rightarrow> string" where
  "str_nat n =
     (if n < 10 then [char_of (48 + n)] else str_nat (n div 10) @ [char_of (48 + n mod 10)])"

definition str_int :: "int \<Rightarrow> string" where
  "str_int i = (if i < 0 then CHR ''-'' # str_nat (nat (- i)) else str_nat (nat i))"

subsection \<open>One record\<close>

text \<open>
  Line 131: \<open>name, version, path = line.split()\<close> raises \<open>ValueError\<close> unless there are
  exactly three fields. The \<open>line.rstrip()\<close> of line 130 discards its result.
\<close>

definition parse_line :: "string \<Rightarrow> error + string \<times> string \<times> string" where
  "parse_line line =
     (case str_split line of
        [name, version, path] \<Rightarrow> Inr (name, version, path)
      | _ \<Rightarrow> Inl ValueError)"

text \<open>Lines 134 to 136: the value of \<open>build_image\<close> after the conditional.\<close>

definition is_irods41 :: "string \<Rightarrow> string \<Rightarrow> bool" where
  "is_irods41 name version = (name = ''irods'' \<and> take 4 version = ''4.1.'')"

definition build_image :: "args \<Rightarrow> string \<Rightarrow> string \<Rightarrow> string" where
  "build_image a name version =
     (if is_irods41 name version then irods_build_image a else conda_build_image a)"

text \<open>Lines 140 to 150: the script is built by appending, the channels in a loop.\<close>

definition build_script :: "args \<Rightarrow> string \<Rightarrow> string" where
  "build_script a path =
     foldl (\<lambda>script channel. script @ ''conda config --add channels '' @ channel @ '' ; '')
       (''export CONDA_BLD_PATH='' @ [CHR 0x22] @ artefacts_mount a @ [CHR 0x22] @ '' ; ''
          @ ''conda config --set auto_update_conda False ; '')
       (build_channel a)
     @ ''cd '' @ [CHR 0x22] @ recipes_mount a @ [CHR 0x22] @ '' && conda build '' @ path"

text \<open>Lines 152 to 168.\<close>

definition run_cmd :: "string list" where
  "run_cmd = [''docker'', ''run'']"

definition mount_args :: "args \<Rightarrow> string list" where
  "mount_args a =
     [''--mount'', ''source='' @ recipes_dir a @ '',target='' @ recipes_mount a @ '',type=bind'',
      ''--mount'', ''source='' @ artefacts_dir a @ '',target='' @ artefacts_mount a @ '',type=bind'']"

definition env_args :: "args \<Rightarrow> string list" where
  "env_args a =
     [''-e'', ''CONDA_USER_ID='' @ str_int (conda_uid a),
      ''-e'', ''CONDA_GROUP_ID='' @ str_int (conda_gid a)]"

definition other_args :: "args \<Rightarrow> string list" where
  "other_args a = (if remove_container a then [''-i''] @ [''--rm''] else [''-i''])"

definition script_args :: "args \<Rightarrow> string \<Rightarrow> string list" where
  "script_args a path = [''/bin/sh'', ''-c'', build_script a path]"

definition cmd :: "args \<Rightarrow> string \<Rightarrow> string \<Rightarrow> string \<Rightarrow> string list" where
  "cmd a name version path =
     run_cmd @ mount_args a @ env_args a @ other_args a @ [build_image a name version]
       @ script_args a path"

text \<open>
  Lines 182 to 185 and 188 to 191: the banner, then the decoded output line by line, then
  the closing banner. The decoding comes after the first banner; when it raises, nothing
  catches it (the \<open>except\<close> clause is for \<open>CalledProcessError\<close>, and the second decoding
  is inside that clause).
\<close>

definition log_output :: "env \<Rightarrow> level \<Rightarrow> string \<Rightarrow> state \<Rightarrow> state" where
  "log_output e lv out s =
     (let s1 = emit (Log lv BeginOutput) s
      in case decode e out of
           None \<Rightarrow> raise UnicodeDecodeError s1
         | Some txt \<Rightarrow>
             emit (Log lv EndOutput)
               (foldl (\<lambda>s' l. emit (Log lv (OutputLine l)) s') s1 (split_nl txt)))"

text \<open>
  Line 179: \<open>subprocess.run\<close> raises \<open>ValueError\<close> (embedded null byte) when one of the
  arguments holds the character 0, before any process is started. The options come from
  the command line and the environment, whose strings cannot hold that character; the
  recipe path comes from standard input and can.
\<close>

definition has_nul :: "string list \<Rightarrow> bool" where
  "has_nul c = list_ex (\<lambda>arg. CHR 0x00 \<in> set arg) c"

text \<open>
  Lines 130 to 191: the body of the loop, from a state in which nothing is raised. Of the
  exceptions that \<open>subprocess.run\<close> can raise, the \<open>except\<close> clause of line 186 catches
  \<open>CalledProcessError\<close> only: a \<open>ValueError\<close> or an \<open>OSError\<close> of the call ends the run.
\<close>

definition iteration :: "env \<Rightarrow> args \<Rightarrow> state \<Rightarrow> string \<Rightarrow> state" where
  "iteration e a s line =
     (case parse_line line of
        Inl err \<Rightarrow> raise err s
      | Inr (name, version, path) \<Rightarrow>
          let s1 = emit (Log INFO (WorkingOn name version path)) s;
              s2 = (if is_irods41 name version
                    then docker_pull e (irods_build_image a)
                           (emit (Log INFO (UsingImage (irods_build_image a))) s1)
                    else s1)
          in if raised s2 \<noteq> None then s2
             else if dry_run a
             then emit (Log INFO (DockerCommand (cmd a name version path))) s2
             else
               let s3 = emit (Log DEBUG (BuildScript (build_script a path))) s2
               in if has_nul (cmd a name version path) then raise ValueError s3
                  else if launch_fails e (trace s3) (cmd a name version path)
                  then raise OSError s3
                  else
                    let (rc, out) = run_result e (trace s3) (cmd a name version path);
                        s4 = emit (Run (cmd a name version path) rc out) s3
                    in if rc = 0 then log_output e DEBUG out s4
                       else log_output e ERROR out (s4\<lparr>fail := True\<rparr>))"

subsection \<open>The whole run\<close>

text \<open>Lines 129 to 191: the loop ends at the first exception.\<close>

fun for_lines :: "env \<Rightarrow> args \<Rightarrow> state \<Rightarrow> string list \<Rightarrow> state" where
  "for_lines e a s [] = s"
| "for_lines e a s (line # rest) =
     (let s' = iteration e a s line
      in if raised s' = None then for_lines e a s' rest else s')"

text \<open>Lines 125 to 191, on the lines that \<open>sys.stdin.readlines()\<close> returns.\<close>

definition main :: "env \<Rightarrow> args \<Rightarrow> string list \<Rightarrow> state" where
  "main e a lines =
     (let s0 = docker_pull e (conda_build_image a) \<lparr>trace = [], fail = False, raised = None\<rparr>
      in if raised s0 = None then for_lines e a s0 lines else s0)"

text \<open>
  Lines 193 and 194, and the interpreter: an exception that reaches the top level ends
  the process with status 1, \<open>exit(1)\<close> does the same, and falling off the end gives 0.
\<close>

definition exit_status :: "state \<Rightarrow> int" where
  "exit_status s = (case raised s of Some err \<Rightarrow> 1 | None \<Rightarrow> if fail s then 1 else 0)"

subsection \<open>The defaults of the command line\<close>

text \<open>
  Lines 34 to 41 and the \<open>default=\<close> of every option, for a user whose \<open>$HOME\<close>, user id and
  group id are the three parameters.
\<close>

definition default_args :: "string \<Rightarrow> int \<Rightarrow> int \<Rightarrow> args" where
  "default_args home uid gid =
     \<lparr>recipes_dir = home @ ''/conda-recipes'',
      recipes_mount = ''/home/conda/recipes'',
      artefacts_dir = home @ ''/conda-artefacts'',
      artefacts_mount = ''/opt/conda/conda-bld'',
      build_channel = [],
      irods_build_image = ''wsinpg/ub-12.04-conda-irods:latest'',
      conda_build_image = ''wsinpg/ub-12.04-conda:latest'',
      remove_container = False,
      conda_uid = uid,
      conda_gid = gid,
      dry_run = False,
      debug = False,
      verbose = False\<rparr>"

subsection \<open>What a run did, read from its trace\<close>

text \<open>A line is well formed when it splits into exactly three fields.\<close>

definition wf_line :: "string \<Rightarrow> bool" where
  "wf_line line = (length (str_split line) = 3)"

text \<open>The argument list that the loop body builds for a well-formed line.\<close>

definition plan :: "args \<Rightarrow> string \<Rightarrow> string list" where
  "plan a line =
     (case parse_line line of
        Inr (name, version, path) \<Rightarrow> cmd a name version path
      | Inl err \<Rightarrow> [])"

text \<open>The builds that were launched, and the plans that a dry run logged, in order.\<close>

fun launched :: "event list \<Rightarrow> string list list" where
  "launched [] = []"
| "launched (Run c rc out # evs) = c # launched evs"
| "launched (ev # evs) = launched evs"

fun described :: "event list \<Rightarrow> string list list" where
  "described [] = []"
| "described (Log INFO (DockerCommand c) # evs) = c # described evs"
| "described (ev # evs) = described evs"

fun failed_run :: "event \<Rightarrow> bool" where
  "failed_run (Run c rc out) = (rc \<noteq> 0)"
| "failed_run ev = False"

subsection \<open>Worlds\<close>

text \<open>
  Three conditions on the outside world: every \<open>docker pull\<close> exits with status 0, every
  build process is started, and whatever a build prints can be decoded. One condition on
  the input and the options: no argument of the plan of a line holds the character 0.
\<close>

definition pulls_succeed :: "env \<Rightarrow> bool" where
  "pulls_succeed e = (\<forall>h img. pull_status e h img = 0)"

definition builds_start :: "env \<Rightarrow> bool" where
  "builds_start e = (\<forall>h c. \<not> launch_fails e h c)"

definition nul_free :: "args \<Rightarrow> string list \<Rightarrow> bool" where
  "nul_free a lines = list_all (\<lambda>line. \<not> has_nul (plan a line)) lines"

definition output_decodes :: "env \<Rightarrow> bool" where
  "output_decodes e = (\<forall>h c. decode e (snd (run_result e h c)) \<noteq> None)"

text \<open>
  The strict decoder of a platform whose file system encoding is \<open>ascii\<close>: it raises on
  every byte from 128 on. The byte 255 used below is not valid in UTF-8 either.
\<close>

definition ascii_decode :: "string \<Rightarrow> string option" where
  "ascii_decode bs = (if list_all (\<lambda>b. of_char b < (128 :: nat)) bs then Some bs else None)"

text \<open>
  Four worlds to run the script in: one where everything succeeds, one where the registry
  cannot be reached, one where every build fails with a readable message, and one where
  every build fails and prints a byte that cannot be decoded.
\<close>

definition quiet_world :: env where
  "quiet_world =
     \<lparr>pull_status = (\<lambda>h img. 0),
      launch_fails = (\<lambda>h c. False),
      run_result = (\<lambda>h c. (0, ''done'' @ [CHR 0x0A])),
      decode = ascii_decode\<rparr>"

definition registry_down :: env where
  "registry_down =
     \<lparr>pull_status = (\<lambda>h img. 1),
      launch_fails = (\<lambda>h c. False),
      run_result = (\<lambda>h c. (0, ''done'' @ [CHR 0x0A])),
      decode = ascii_decode\<rparr>"

definition failing_build :: env where
  "failing_build =
     \<lparr>pull_status = (\<lambda>h img. 0),
      launch_fails = (\<lambda>h c. False),
      run_result = (\<lambda>h c. (1, ''error'' @ [CHR 0x0A])),
      decode = ascii_decode\<rparr>"

definition garbled_failure :: env where
  "garbled_failure =
     \<lparr>pull_status = (\<lambda>h img. 0),
      launch_fails = (\<lambda>h c. False),
      run_result = (\<lambda>h c. (1, [CHR 0xFF])),
      decode = ascii_decode\<rparr>"

definition npg_args :: args where
  "npg_args = default_args ''/home/npg'' 1000 1000"

definition npg_dry_run :: args where
  "npg_dry_run = npg_args\<lparr>dry_run := True\<rparr>"

definition two_records :: "string list" where
  "two_records =
     [''samtools 1.9 /recipes/samtools'' @ [CHR 0x0A],
      ''bcftools 1.9 /recipes/bcftools'' @ [CHR 0x0A]]"

text \<open>Two well-formed lines, the recipe path of the first with the character 0 in it.\<close>

definition nul_records :: "string list" where
  "nul_records =
     [''samtools 1.9 /recipes/sam'' @ [CHR 0x00] @ ''tools'' @ [CHR 0x0A],
      ''bcftools 1.9 /recipes/bcftools'' @ [CHR 0x0A]]"

section \<open>Building the plan of one record\<close>

subsection \<open>Image selection\<close>

lemma take4_prefix: "take 4 version = ''4.1.'' \<longleftrightarrow> prefix ''4.1.'' version"
proof
  assume "take 4 version = ''4.1.''"
  then have "version = ''4.1.'' @ drop 4 version"
    by (metis append_take_drop_id)
  then show "prefix ''4.1.'' version"
    by (metis prefixI)
next
  assume "prefix ''4.1.'' version"
  then obtain zs where "version = ''4.1.'' @ zs"
    by (auto simp: prefix_def)
  then show "take 4 version = ''4.1.''"
    by simp
qed

text \<open>
  Claim C3. The image chosen for a record is the irods image when the name is \<open>irods\<close>
  and the version starts with \<open>4.1.\<close>, and the default image for every other name and
  version; when the two configured images differ, the irods image is returned in that case
  only. The choice is a total function: no name or version makes it fail.
\<close>

theorem build_image_selection:
  "build_image a name version =
     (if name = ''irods'' \<and> prefix ''4.1.'' version then irods_build_image a
      else conda_build_image a)
   \<and> (irods_build_image a \<noteq> conda_build_image a \<longrightarrow>
        (build_image a name version = irods_build_image a
           \<longleftrightarrow> name = ''irods'' \<and> prefix ''4.1.'' version))"
  by (simp add: build_image_def is_irods41_def take4_prefix)

theorem build_image_selection_witness:
  "irods_build_image (default_args ''/home/npg'' 1000 1000)
     \<noteq> conda_build_image (default_args ''/home/npg'' 1000 1000)
   \<and> build_image (default_args ''/home/npg'' 1000 1000) ''irods'' ''4.1.10''
       = ''wsinpg/ub-12.04-conda-irods:latest''
   \<and> build_image (default_args ''/home/npg'' 1000 1000) ''irods'' ''4.2.0''
       = ''wsinpg/ub-12.04-conda:latest''
   \<and> build_image (default_args ''/home/npg'' 1000 1000) ''samtools'' ''4.1.10''
       = ''wsinpg/ub-12.04-conda:latest''"
  using build_image_selection [of "default_args ''/home/npg'' 1000 1000" "''irods''" "''4.1.10''"]
    build_image_selection [of "default_args ''/home/npg'' 1000 1000" "''irods''" "''4.2.0''"]
    build_image_selection [of "default_args ''/home/npg'' 1000 1000" "''samtools''" "''4.1.10''"]
  by (simp add: default_args_def)

text \<open>
  Claim C10. The slice \<open>version[:4]\<close> of a version shorter than four characters is the
  version itself, so the comparison with \<open>4.1.\<close> is false and the record gets the default
  image, whatever its name; nothing is raised.
\<close>

theorem short_version_default:
  "length version < 4 \<Longrightarrow>
     take 4 version = version \<and> \<not> is_irods41 name version
     \<and> build_image a name version = conda_build_image a"
  by (auto simp: build_image_def is_irods41_def)

theorem short_version_default_witness:
  "length ''4.1'' < 4
   \<and> build_image (default_args ''/home/npg'' 1000 1000) ''irods'' ''4.1''
       = ''wsinpg/ub-12.04-conda:latest''"
  using short_version_default [of "''4.1''" "''irods''" "default_args ''/home/npg'' 1000 1000"]
  by (simp add: default_args_def)

subsection \<open>The shell script\<close>

lemma foldl_append_concat:
  "foldl (\<lambda>acc x. acc @ f x) init xs = init @ concat (map f xs)"
  by (induction xs arbitrary: init) simp_all

text \<open>
  Claim C5, as amended. The script is, in this order: the export of the artefacts mount,
  the statement that disables the automatic update, one statement for each channel in the
  configured order (none for an empty list), each of these ending in \<open> ; \<close>, and last the
  change of directory and the build of the recipe path, to which no terminator is added.
\<close>

theorem build_script_shape:
  "build_script a path =
     ''export CONDA_BLD_PATH='' @ [CHR 0x22] @ artefacts_mount a @ [CHR 0x22] @ '' ; ''
     @ ''conda config --set auto_update_conda False ; ''
     @ concat (map (\<lambda>channel. ''conda config --add channels '' @ channel @ '' ; '')
         (build_channel a))
     @ ''cd '' @ [CHR 0x22] @ recipes_mount a @ [CHR 0x22] @ '' && conda build '' @ path"
  unfolding build_script_def
  using foldl_append_concat [of "\<lambda>channel. ''conda config --add channels '' @ channel @ '' ; ''"]
  by simp

text \<open>
  Claim C5 as it is written asks for a \<open>;\<close> after every step. With the default options and
  the recipe path \<open>/recipes/foo\<close> the script ends with the build invocation itself.
\<close>

theorem build_script_last_statement:
  "build_script (default_args ''/home/npg'' 1000 1000) ''/recipes/foo'' =
     ''export CONDA_BLD_PATH='' @ [CHR 0x22] @ ''/opt/conda/conda-bld'' @ [CHR 0x22] @ '' ; ''
     @ ''conda config --set auto_update_conda False ; ''
     @ ''cd '' @ [CHR 0x22] @ ''/home/conda/recipes'' @ [CHR 0x22] @ '' && conda build /recipes/foo''
   \<and> last (build_script (default_args ''/home/npg'' 1000 1000) ''/recipes/foo'') \<noteq> CHR '';''
   \<and> \<not> suffix '' ; '' (build_script (default_args ''/home/npg'' 1000 1000) ''/recipes/foo'')"
  by (simp add: build_script_def default_args_def suffix_def)

subsection \<open>The argument list\<close>

text \<open>
  Claim C6. The argument list is \<open>docker run\<close>, the bind mount of the recipes and then of
  the artefacts, the user id and then the group id as environment variables, \<open>-i\<close>, then
  \<open>--rm\<close> exactly when the container is to be removed, the image chosen for the record, and
  \<open>/bin/sh -c\<close> with the whole script as one argument.
\<close>

theorem cmd_shape:
  "cmd a name version path =
     [''docker'', ''run'',
      ''--mount'', ''source='' @ recipes_dir a @ '',target='' @ recipes_mount a @ '',type=bind'',
      ''--mount'', ''source='' @ artefacts_dir a @ '',target='' @ artefacts_mount a @ '',type=bind'',
      ''-e'', ''CONDA_USER_ID='' @ str_int (conda_uid a),
      ''-e'', ''CONDA_GROUP_ID='' @ str_int (conda_gid a),
      ''-i'']
     @ (if remove_container a then [''--rm''] else [])
     @ [build_image a name version, ''/bin/sh'', ''-c'', build_script a path]"
  by (simp add: cmd_def run_cmd_def mount_args_def env_args_def other_args_def script_args_def)

section \<open>The loop over the input\<close>

subsection \<open>What each operation does to the state\<close>

lemma emit_simps [simp]:
  "trace (emit ev s) = trace s @ [ev]" "fail (emit ev s) = fail s" "raised (emit ev s) = raised s"
  by (simp_all add: emit_def)

lemma raise_simps [simp]:
  "trace (raise err s) = trace s" "fail (raise err s) = fail s" "raised (raise err s) = Some err"
  by (simp_all add: raise_def)

lemma launched_append [simp]: "launched (xs @ ys) = launched xs @ launched ys"
  by (induction xs rule: launched.induct) simp_all

lemma described_append [simp]: "described (xs @ ys) = described xs @ described ys"
  by (induction xs rule: described.induct) simp_all

lemma docker_pull_simps [simp]:
  "trace (docker_pull e img s) = trace s @ [Pull img]"
  "fail (docker_pull e img s) = fail s"
  "raised (docker_pull e img s) =
     (if pull_status e (trace s) img = 0 then raised s else Some CalledProcessError)"
  by (simp_all add: docker_pull_def Let_def)

lemma foldl_emit [simp]:
  "trace (foldl (\<lambda>s' l. emit (f l) s') s ls) = trace s @ map f ls"
  "fail (foldl (\<lambda>s' l. emit (f l) s') s ls) = fail s"
  "raised (foldl (\<lambda>s' l. emit (f l) s') s ls) = raised s"
  by (induction ls arbitrary: s) simp_all

lemma log_output_simps [simp]:
  "trace (log_output e lv out s) =
     trace s @ Log lv BeginOutput #
       (case decode e out of
          None \<Rightarrow> []
        | Some txt \<Rightarrow> map (\<lambda>l. Log lv (OutputLine l)) (split_nl txt) @ [Log lv EndOutput])"
  "fail (log_output e lv out s) = fail s"
  "raised (log_output e lv out s) =
     (case decode e out of None \<Rightarrow> Some UnicodeDecodeError | Some txt \<Rightarrow> raised s)"
  by (simp_all add: log_output_def Let_def split: option.splits)

lemma launched_logs [simp]: "launched (map (\<lambda>l. Log lv (f l)) ls) = []"
  by (induction ls) simp_all

lemma described_output [simp]: "described (map (\<lambda>l. Log lv (OutputLine l)) ls) = []"
  by (cases lv; induction ls; simp)

lemma described_other [simp]:
  "described [Log lv BeginOutput] = []" "described [Log lv EndOutput] = []"
  "described [Log lv (BuildScript t)] = []"
  by (cases lv; simp)+

lemma failed_run_logs [simp]: "list_ex failed_run (map (\<lambda>l. Log lv (f l)) ls) = False"
  by (induction ls) simp_all

lemma no_launch_no_failure: "launched evs = [] \<Longrightarrow> \<not> list_ex failed_run evs"
  by (induction evs rule: launched.induct) simp_all

subsection \<open>One iteration\<close>

lemma iteration_malformed: "\<not> wf_line line \<Longrightarrow> iteration e a s line = raise ValueError s"
  by (auto simp: wf_line_def iteration_def parse_line_def split: list.splits)

lemma parse_line_wf:
  "wf_line line \<Longrightarrow> \<exists>name version path. parse_line line = Inr (name, version, path)"
  by (auto simp: wf_line_def parse_line_def length_Suc_conv numeral_3_eq_3 split: list.splits)

lemma plan_parsed:
  "parse_line line = Inr (name, version, path) \<Longrightarrow> plan a line = cmd a name version path"
  by (simp add: plan_def)

lemma iteration_extends: "\<exists>evs. trace (iteration e a s line) = trace s @ evs"
  by (simp add: iteration_def Let_def split: sum.splits prod.splits)

lemma iteration_dry_run_launched:
  "dry_run a \<Longrightarrow> launched (trace (iteration e a s line)) = launched (trace s)"
  by (simp add: iteration_def Let_def split: sum.splits prod.splits)

text \<open>The flag \<open>fail\<close> is set exactly when a build that exited with a status other than 0 is in the trace.\<close>

lemma iteration_fail_inv:
  "fail s = list_ex failed_run (trace s) \<Longrightarrow>
     fail (iteration e a s line) = list_ex failed_run (trace (iteration e a s line))"
  by (simp add: iteration_def Let_def split: sum.splits prod.splits option.splits)

lemma iteration_irods_pull:
  "parse_line line = Inr (name, version, path) \<Longrightarrow> is_irods41 name version \<Longrightarrow>
     \<exists>evs. trace (iteration e a s line) =
       trace s @ [Log INFO (WorkingOn name version path),
                  Log INFO (UsingImage (irods_build_image a)),
                  Pull (irods_build_image a)] @ evs"
  by (simp add: iteration_def Let_def split: prod.splits)

lemma iteration_dry:
  assumes "parse_line line = Inr (name, version, path)" "pulls_succeed e" "dry_run a"
    and "raised s = None"
  shows "raised (iteration e a s line) = None"
    and "fail (iteration e a s line) = fail s"
    and "described (trace (iteration e a s line)) = described (trace s) @ [cmd a name version path]"
  using assms by (simp_all add: iteration_def Let_def pulls_succeed_def)

lemma output_decodesD:
  "output_decodes e \<Longrightarrow> run_result e h c = (rc, out) \<Longrightarrow> \<exists>txt. decode e out = Some txt"
  unfolding output_decodes_def by (metis not_None_eq snd_conv)

lemma iteration_build:
  assumes "parse_line line = Inr (name, version, path)" "pulls_succeed e" "\<not> dry_run a"
    and "output_decodes e" "raised s = None"
    and "builds_start e" "\<not> has_nul (cmd a name version path)"
  shows "raised (iteration e a s line) = None"
    and "launched (trace (iteration e a s line)) = launched (trace s) @ [cmd a name version path]"
    and "described (trace (iteration e a s line)) = described (trace s)"
  using assms
  by (auto simp: iteration_def Let_def pulls_succeed_def builds_start_def split: prod.splits
      dest!: output_decodesD [OF assms(4)])

text \<open>A line whose plan holds the character 0 ends a real run before the build is launched.\<close>

lemma iteration_nul:
  assumes "parse_line line = Inr (name, version, path)" "pulls_succeed e" "\<not> dry_run a"
    and "raised s = None" "has_nul (cmd a name version path)"
  shows "raised (iteration e a s line) = Some ValueError"
    and "launched (trace (iteration e a s line)) = launched (trace s)"
    and "fail (iteration e a s line) = fail s"
  using assms by (simp_all add: iteration_def Let_def pulls_succeed_def)

subsection \<open>The loop\<close>

lemma for_lines_append:
  "raised s = None \<Longrightarrow>
     for_lines e a s (xs @ ys) =
       (let s' = for_lines e a s xs in if raised s' = None then for_lines e a s' ys else s')"
  by (induction xs arbitrary: s) (auto simp: Let_def)

lemma for_lines_extends: "\<exists>evs. trace (for_lines e a s lines) = trace s @ evs"
proof (induction lines arbitrary: s)
  case Nil
  then show ?case by simp
next
  case (Cons line rest)
  obtain evs where 1: "trace (iteration e a s line) = trace s @ evs"
    using iteration_extends by blast
  obtain evs' where 2:
    "trace (for_lines e a (iteration e a s line) rest) = trace (iteration e a s line) @ evs'"
    using Cons.IH by blast
  show ?case
    by (simp add: Let_def 1 2)
qed

lemma for_lines_dry_run_launched:
  "dry_run a \<Longrightarrow> launched (trace (for_lines e a s lines)) = launched (trace s)"
  by (induction lines arbitrary: s) (simp_all add: Let_def iteration_dry_run_launched)

lemma for_lines_fail_inv:
  "fail s = list_ex failed_run (trace s) \<Longrightarrow>
     fail (for_lines e a s lines) = list_ex failed_run (trace (for_lines e a s lines))"
  by (induction lines arbitrary: s) (simp_all add: Let_def iteration_fail_inv)

lemma for_lines_dry:
  assumes "pulls_succeed e" "dry_run a"
  shows "list_all wf_line lines \<Longrightarrow> raised s = None \<Longrightarrow>
     raised (for_lines e a s lines) = None
     \<and> described (trace (for_lines e a s lines)) = described (trace s) @ map (plan a) lines"
proof (induction lines arbitrary: s)
  case Nil
  then show ?case by simp
next
  case (Cons line rest)
  from Cons.prems obtain name version path where p: "parse_line line = Inr (name, version, path)"
    using parse_line_wf by fastforce
  note it = iteration_dry [OF p assms Cons.prems(2)]
  from Cons.prems(1) have "list_all wf_line rest" by simp
  from Cons.IH [OF this it(1)] show ?case
    by (simp add: Let_def it plan_parsed [OF p])
qed

lemma for_lines_build:
  assumes "pulls_succeed e" "\<not> dry_run a" "output_decodes e" "builds_start e"
  shows "list_all wf_line lines \<Longrightarrow> nul_free a lines \<Longrightarrow> raised s = None \<Longrightarrow>
     raised (for_lines e a s lines) = None
     \<and> launched (trace (for_lines e a s lines)) = launched (trace s) @ map (plan a) lines
     \<and> described (trace (for_lines e a s lines)) = described (trace s)"
proof (induction lines arbitrary: s)
  case Nil
  then show ?case by simp
next
  case (Cons line rest)
  from Cons.prems obtain name version path where p: "parse_line line = Inr (name, version, path)"
    using parse_line_wf by fastforce
  from Cons.prems(2) have n: "\<not> has_nul (cmd a name version path)" "nul_free a rest"
    by (simp_all add: nul_free_def plan_parsed [OF p])
  note it = iteration_build [OF p assms(1,2,3) Cons.prems(3) assms(4) n(1)]
  from Cons.prems(1) have "list_all wf_line rest" by simp
  from Cons.IH [OF this n(2) it(1)] show ?case
    by (simp add: Let_def it plan_parsed [OF p])
qed

subsection \<open>The whole run\<close>

lemma main_append:
  "main e a (xs @ ys) =
     (let s = main e a xs in if raised s = None then for_lines e a s ys else s)"
  by (simp add: main_def Let_def for_lines_append)

lemma main_start:
  "pulls_succeed e \<Longrightarrow>
     main e a lines =
       for_lines e a \<lparr>trace = [Pull (conda_build_image a)], fail = False, raised = None\<rparr> lines"
  by (simp add: main_def docker_pull_def pulls_succeed_def emit_def Let_def)

lemma main_extends: "\<exists>evs. trace (main e a lines) = Pull (conda_build_image a) # evs"
proof -
  obtain evs where "trace (for_lines e a (emit (Pull (conda_build_image a))
      \<lparr>trace = [], fail = False, raised = None\<rparr>) lines) = [Pull (conda_build_image a)] @ evs"
    using for_lines_extends [of e a "emit (Pull (conda_build_image a))
      \<lparr>trace = [], fail = False, raised = None\<rparr>" lines] by auto
  then show ?thesis
    by (simp add: main_def docker_pull_def Let_def)
qed

lemma main_dry_run_launched: "dry_run a \<Longrightarrow> launched (trace (main e a lines)) = []"
  by (simp add: main_def Let_def for_lines_dry_run_launched)

lemma main_fail_inv: "fail (main e a lines) = list_ex failed_run (trace (main e a lines))"
  by (simp add: main_def Let_def for_lines_fail_inv)

lemma main_dry:
  assumes "list_all wf_line lines" "pulls_succeed e" "dry_run a"
  shows "raised (main e a lines) = None"
    and "described (trace (main e a lines)) = map (plan a) lines"
  using for_lines_dry [OF assms(2,3,1),
      of "\<lparr>trace = [Pull (conda_build_image a)], fail = False, raised = None\<rparr>"]
  by (simp_all add: main_start [OF assms(2)])

lemma main_build:
  assumes "list_all wf_line lines" "pulls_succeed e" "\<not> dry_run a" "output_decodes e"
    and "builds_start e" "nul_free a lines"
  shows "raised (main e a lines) = None"
    and "launched (trace (main e a lines)) = map (plan a) lines"
    and "described (trace (main e a lines)) = []"
  using for_lines_build [OF assms(2,3,4,5,1,6),
      of "\<lparr>trace = [Pull (conda_build_image a)], fail = False, raised = None\<rparr>"]
  by (simp_all add: main_start [OF assms(2)])

lemma quiet_world_benign:
  "pulls_succeed quiet_world" "output_decodes quiet_world" "builds_start quiet_world"
  by (simp_all add: pulls_succeed_def output_decodes_def builds_start_def quiet_world_def
      ascii_decode_def)

lemma failing_build_benign:
  "pulls_succeed failing_build" "output_decodes failing_build" "builds_start failing_build"
  by (simp_all add: pulls_succeed_def output_decodes_def builds_start_def failing_build_def
      ascii_decode_def)

lemma two_records_wf: "list_all wf_line two_records"
  by code_simp

lemma two_records_nul_free: "nul_free npg_args two_records"
  by code_simp

lemma npg_modes: "\<not> dry_run npg_args" "dry_run npg_dry_run"
  by (simp_all add: npg_dry_run_def npg_args_def default_args_def)

section \<open>Properties of a run\<close>

subsection \<open>Malformed lines\<close>

text \<open>
  Claim C8. A line that does not split into exactly three fields ends the run with a
  status other than 0: an exception is raised (the \<open>ValueError\<close> of the unpacking when the
  run got as far as this line), the exit status is 1, and the trace and the failure flag are
  those of the run over the lines before it. So nothing after the line is attempted, and
  what the earlier records did stays done.
\<close>

theorem malformed_line_aborts:
  assumes "\<not> wf_line bad"
  shows "raised (main e a (pre @ bad # post)) \<noteq> None
    \<and> (raised (main e a pre) = None \<longrightarrow>
         raised (main e a (pre @ bad # post)) = Some ValueError)
    \<and> exit_status (main e a (pre @ bad # post)) = 1
    \<and> trace (main e a (pre @ bad # post)) = trace (main e a pre)
    \<and> fail (main e a (pre @ bad # post)) = fail (main e a pre)"
proof (cases "raised (main e a pre) = None")
  case True
  then have "main e a (pre @ bad # post) = raise ValueError (main e a pre)"
    by (simp add: main_append [of e a pre] Let_def iteration_malformed [OF assms])
  then show ?thesis
    by (simp add: exit_status_def)
next
  case False
  then obtain err where err: "raised (main e a pre) = Some err"
    by auto
  then have "main e a (pre @ bad # post) = main e a pre"
    by (simp add: main_append [of e a pre] Let_def)
  with err show ?thesis
    by (simp add: exit_status_def)
qed

theorem malformed_line_aborts_witness:
  "\<not> wf_line ''htslib 1.9'' \<and> \<not> wf_line ''htslib 1.9 /recipes/htslib extra''
   \<and> exit_status (main quiet_world npg_args (two_records @ ''htslib 1.9'' # two_records)) = 1
   \<and> trace (main quiet_world npg_args (two_records @ ''htslib 1.9'' # two_records))
       = trace (main quiet_world npg_args two_records)
   \<and> raised (main quiet_world npg_args
        (two_records @ ''htslib 1.9 /recipes/htslib extra'' # two_records)) \<noteq> None"
proof -
  have 1: "\<not> wf_line ''htslib 1.9''" by code_simp
  have 2: "\<not> wf_line ''htslib 1.9 /recipes/htslib extra''" by code_simp
  show ?thesis
    using malformed_line_aborts [OF 1, of quiet_world npg_args two_records two_records]
      malformed_line_aborts [OF 2, of quiet_world npg_args two_records two_records] 1 2
    by simp
qed

subsection \<open>One attempt for each line\<close>

text \<open>
  Claim C4, as amended. When every line is well formed and every \<open>docker pull\<close> succeeds
  and, unless the run is a dry run, every build process is started, no argument of a plan
  holds the character 0 and every captured output can be decoded, the run reaches the end
  of the input, and the builds it launched (in a dry run: the plans it logged) are the
  plans of the input lines, one for each line and in the order of the lines; a dry run
  launches nothing and a real run logs no plan.
\<close>

theorem attempts_follow_input:
  assumes "list_all wf_line lines" "pulls_succeed e"
    and "\<not> dry_run a \<longrightarrow> builds_start e \<and> nul_free a lines \<and> output_decodes e"
  shows "raised (main e a lines) = None
    \<and> (if dry_run a
       then described (trace (main e a lines)) = map (plan a) lines
            \<and> launched (trace (main e a lines)) = []
       else launched (trace (main e a lines)) = map (plan a) lines
            \<and> described (trace (main e a lines)) = [])
    \<and> length (launched (trace (main e a lines)) @ described (trace (main e a lines)))
        = length lines"
proof (cases "dry_run a")
  case True
  from main_dry [OF assms(1,2) True] main_dry_run_launched [OF True, of e lines]
  show ?thesis
    by (simp add: True)
next
  case False
  with assms(3) have "builds_start e" "nul_free a lines" "output_decodes e"
    by simp_all
  from main_build [OF assms(1,2) False this(3,1,2)]
  show ?thesis
    by (simp add: False)
qed

theorem attempts_follow_input_witness:
  "list_all wf_line two_records \<and> pulls_succeed quiet_world \<and> builds_start quiet_world
   \<and> nul_free npg_args two_records \<and> output_decodes quiet_world
   \<and> raised (main quiet_world npg_args two_records) = None
   \<and> launched (trace (main quiet_world npg_args two_records)) = map (plan npg_args) two_records
   \<and> described (trace (main quiet_world npg_dry_run two_records))
       = map (plan npg_dry_run) two_records"
  using attempts_follow_input [OF two_records_wf quiet_world_benign(1), of npg_args]
    attempts_follow_input [OF two_records_wf quiet_world_benign(1), of npg_dry_run]
    two_records_wf quiet_world_benign two_records_nul_free npg_modes
  by simp

text \<open>
  Claim C4 as it is written speaks of every well-formed input. When the first
  \<open>docker pull\<close> fails the run ends there: two well-formed lines, and neither a build nor a
  logged plan.
\<close>

theorem attempts_stop_at_failed_pull:
  "list_all wf_line two_records
   \<and> trace (main registry_down npg_args two_records) = [Pull ''wsinpg/ub-12.04-conda:latest'']
   \<and> raised (main registry_down npg_args two_records) = Some CalledProcessError
   \<and> length (launched (trace (main registry_down npg_args two_records))) = 0
   \<and> length (described (trace (main registry_down npg_dry_run two_records))) = 0
   \<and> length two_records = 2"
  by code_simp

text \<open>
  The conditions on the start of the builds are needed as well. Both lines of
  \<open>nul_records\<close> are well formed and all is well with the world, but the recipe path of the
  first holds the character 0: \<open>subprocess.run\<close> raises \<open>ValueError\<close>, no build is launched,
  no build has failed, and the exit status is 1.
\<close>

lemma nul_path_aborts:
  "list_all wf_line nul_records
   \<and> raised (main quiet_world npg_args nul_records) = Some ValueError
   \<and> launched (trace (main quiet_world npg_args nul_records)) = []
   \<and> \<not> fail (main quiet_world npg_args nul_records)
   \<and> exit_status (main quiet_world npg_args nul_records) = 1"
  by code_simp

subsection \<open>The exit status\<close>

text \<open>
  Claim C2, as amended. The failure flag is set exactly when some build exited with a
  status other than 0, and then the exit status is 1 in every run. When every line is well
  formed and every \<open>docker pull\<close> succeeds and, unless the run is a dry run, every build
  process is started, no argument of a plan holds the character 0 and every captured
  output can be decoded, the exit status is 1 if some build failed and 0 otherwise, so 0
  for every dry run.
\<close>

theorem exit_status_reflects_failures:
  "fail (main e a lines) = list_ex failed_run (trace (main e a lines))
   \<and> (list_ex failed_run (trace (main e a lines)) \<longrightarrow> exit_status (main e a lines) = 1)
   \<and> (list_all wf_line lines \<and> pulls_succeed e
        \<and> (\<not> dry_run a \<longrightarrow> builds_start e \<and> nul_free a lines \<and> output_decodes e) \<longrightarrow>
        exit_status (main e a lines)
          = (if list_ex failed_run (trace (main e a lines)) then 1 else 0)
        \<and> (dry_run a \<longrightarrow> exit_status (main e a lines) = 0))"
proof -
  have inv: "fail (main e a lines) = list_ex failed_run (trace (main e a lines))"
    by (rule main_fail_inv)
  have one: "list_ex failed_run (trace (main e a lines)) \<Longrightarrow> exit_status (main e a lines) = 1"
    using inv by (simp add: exit_status_def split: option.splits)
  have rest: "exit_status (main e a lines)
          = (if list_ex failed_run (trace (main e a lines)) then 1 else 0)
        \<and> (dry_run a \<longrightarrow> exit_status (main e a lines) = 0)"
    if h: "list_all wf_line lines" "pulls_succeed e"
      "\<not> dry_run a \<longrightarrow> builds_start e \<and> nul_free a lines \<and> output_decodes e"
  proof -
    have r: "raised (main e a lines) = None"
      using main_dry(1) [OF h(1,2)] main_build(1) [OF h(1,2)] h(3) by blast
    have "\<not> list_ex failed_run (trace (main e a lines))" if "dry_run a"
      using main_dry_run_launched [OF that] no_launch_no_failure by blast
    then show ?thesis
      using r inv by (simp add: exit_status_def)
  qed
  show ?thesis
    using inv one rest by blast
qed

theorem exit_status_reflects_failures_witness:
  "list_all wf_line two_records \<and> nul_free npg_args two_records
   \<and> pulls_succeed failing_build \<and> builds_start failing_build \<and> output_decodes failing_build
   \<and> list_ex failed_run (trace (main failing_build npg_args two_records))
   \<and> exit_status (main failing_build npg_args two_records) = 1
   \<and> pulls_succeed quiet_world \<and> builds_start quiet_world \<and> output_decodes quiet_world
   \<and> \<not> list_ex failed_run (trace (main quiet_world npg_args two_records))
   \<and> exit_status (main quiet_world npg_args two_records) = 0"
proof -
  have 1: "list_ex failed_run (trace (main failing_build npg_args two_records))"
    by code_simp
  have 2: "\<not> list_ex failed_run (trace (main quiet_world npg_args two_records))"
    by code_simp
  show ?thesis
    using exit_status_reflects_failures [of failing_build npg_args two_records]
      exit_status_reflects_failures [of quiet_world npg_args two_records]
      two_records_wf two_records_nul_free quiet_world_benign failing_build_benign 1 2
    by simp
qed

text \<open>
  Claim C2 as it is written makes the exit status a function of whether a build failed.
  Over the same two well-formed lines no build fails either when the registry is down or
  when all is well, and the exit status is 1 in the first run and 0 in the second.
\<close>

theorem exit_status_after_failed_pull:
  "list_all wf_line two_records
   \<and> \<not> list_ex failed_run (trace (main registry_down npg_args two_records))
   \<and> \<not> fail (main registry_down npg_args two_records)
   \<and> exit_status (main registry_down npg_args two_records) = 1
   \<and> \<not> list_ex failed_run (trace (main quiet_world npg_args two_records))
   \<and> exit_status (main quiet_world npg_args two_records) = 0"
  by code_simp

subsection \<open>Dry runs\<close>

text \<open>
  Claim C7, as amended. A dry run never launches a build and never sets the failure flag,
  whatever the input and the world, and its logging threshold lets the level of the plan
  messages through. When moreover every line is well formed and every \<open>docker pull\<close>
  succeeds, the plan of every line is logged, in order, the run reaches the end of the
  input and the exit status is 0.
\<close>

theorem dry_run_skips_builds:
  "(dry_run a \<longrightarrow>
      launched (trace (main e a lines)) = [] \<and> \<not> fail (main e a lines)
      \<and> severity (level a) \<le> severity INFO)
   \<and> (dry_run a \<and> list_all wf_line lines \<and> pulls_succeed e \<longrightarrow>
        described (trace (main e a lines)) = map (plan a) lines
        \<and> raised (main e a lines) = None
        \<and> exit_status (main e a lines) = 0)"
proof -
  have never: "launched (trace (main e a lines)) = []" if "dry_run a"
    using that by (rule main_dry_run_launched)
  have ok: "\<not> fail (main e a lines)" if "dry_run a"
    using never [OF that] no_launch_no_failure by (simp add: main_fail_inv)
  have lv: "severity (level a) \<le> severity INFO" if "dry_run a"
    using that by (simp add: level_def)
  have batch: "described (trace (main e a lines)) = map (plan a) lines
        \<and> raised (main e a lines) = None \<and> exit_status (main e a lines) = 0"
    if "dry_run a" "list_all wf_line lines" "pulls_succeed e"
    using main_dry [OF that(2,3,1)] ok [OF that(1)] by (simp add: exit_status_def)
  show ?thesis
    using never ok lv batch by blast
qed

theorem dry_run_skips_builds_witness:
  "dry_run npg_dry_run \<and> list_all wf_line two_records \<and> pulls_succeed quiet_world
   \<and> launched (trace (main quiet_world npg_dry_run two_records)) = []
   \<and> described (trace (main quiet_world npg_dry_run two_records))
       = map (plan npg_dry_run) two_records
   \<and> exit_status (main quiet_world npg_dry_run two_records) = 0"
  using dry_run_skips_builds [of npg_dry_run quiet_world two_records]
    npg_modes(2) two_records_wf quiet_world_benign(1)
  by simp

text \<open>
  Claim C7 as it is written gives every dry run over well-formed input the exit status 0.
  With the registry down the first \<open>docker pull\<close> raises: no plan is logged and the status
  is 1.
\<close>

theorem dry_run_failed_pull:
  "dry_run npg_dry_run \<and> list_all wf_line two_records
   \<and> described (trace (main registry_down npg_dry_run two_records)) = []
   \<and> raised (main registry_down npg_dry_run two_records) = Some CalledProcessError
   \<and> exit_status (main registry_down npg_dry_run two_records) = 1"
  by code_simp

text \<open>
  Claim C9. Every run, dry or not, starts by pulling the default image: that pull is the
  first event of the trace and the only one before the loop. In a dry run no build is
  launched, and the iteration of a record whose name is \<open>irods\<close> and whose version starts
  with \<open>4.1.\<close> logs the record and the image and then pulls the irods image, right after
  what the run had done up to that record.
\<close>

theorem dry_run_still_pulls:
  "(\<exists>evs. trace (main e a lines) = Pull (conda_build_image a) # evs)
   \<and> trace (main e a []) = [Pull (conda_build_image a)]
   \<and> (dry_run a \<longrightarrow> launched (trace (main e a lines)) = [])
   \<and> (dry_run a \<and> raised (main e a pre) = None
        \<and> parse_line line = Inr (name, version, path) \<and> is_irods41 name version \<longrightarrow>
       (\<exists>evs. trace (main e a (pre @ line # post)) =
          trace (main e a pre)
          @ [Log INFO (WorkingOn name version path),
             Log INFO (UsingImage (irods_build_image a)),
             Pull (irods_build_image a)] @ evs))"
proof -
  have first: "\<exists>evs. trace (main e a lines) = Pull (conda_build_image a) # evs"
    by (rule main_extends)
  have alone: "trace (main e a []) = [Pull (conda_build_image a)]"
    by (simp add: main_def Let_def)
  have never: "dry_run a \<Longrightarrow> launched (trace (main e a lines)) = []"
    by (rule main_dry_run_launched)
  have irods: "\<exists>evs. trace (main e a (pre @ line # post)) =
          trace (main e a pre)
          @ [Log INFO (WorkingOn name version path),
             Log INFO (UsingImage (irods_build_image a)),
             Pull (irods_build_image a)] @ evs"
    if r: "raised (main e a pre) = None" and p: "parse_line line = Inr (name, version, path)"
      and i: "is_irods41 name version"
  proof -
    obtain evs where 1: "trace (iteration e a (main e a pre) line) =
       trace (main e a pre) @ [Log INFO (WorkingOn name version path),
                  Log INFO (UsingImage (irods_build_image a)),
                  Pull (irods_build_image a)] @ evs"
      using iteration_irods_pull [OF p i] by blast
    obtain evs' where 2: "trace (for_lines e a (iteration e a (main e a pre) line) post)
        = trace (iteration e a (main e a pre) line) @ evs'"
      using for_lines_extends by blast
    show ?thesis
      by (simp add: main_append [of e a pre] r Let_def 1 2)
  qed
  show ?thesis
    using first alone never irods by blast
qed

theorem dry_run_still_pulls_witness:
  "dry_run npg_dry_run \<and> raised (main quiet_world npg_dry_run two_records) = None
   \<and> parse_line ''irods 4.1.10 /recipes/irods'' = Inr (''irods'', ''4.1.10'', ''/recipes/irods'')
   \<and> is_irods41 ''irods'' ''4.1.10''
   \<and> (\<exists>evs. trace (main quiet_world npg_dry_run
                (two_records @ ''irods 4.1.10 /recipes/irods'' # two_records)) =
          trace (main quiet_world npg_dry_run two_records)
          @ [Log INFO (WorkingOn ''irods'' ''4.1.10'' ''/recipes/irods''),
             Log INFO (UsingImage (irods_build_image npg_dry_run)),
             Pull (irods_build_image npg_dry_run)] @ evs)"
proof -
  have 2: "raised (main quiet_world npg_dry_run two_records) = None"
    by code_simp
  have 3: "parse_line ''irods 4.1.10 /recipes/irods''
             = Inr (''irods'', ''4.1.10'', ''/recipes/irods'')"
    by code_simp
  have 4: "is_irods41 ''irods'' ''4.1.10''"
    by code_simp
  show ?thesis
    using dry_run_still_pulls [of quiet_world npg_dry_run two_records two_records
        "''irods 4.1.10 /recipes/irods''" "''irods''" "''4.1.10''" "''/recipes/irods''" two_records]
      npg_modes(2) 2 3 4
    by blast
qed

subsection \<open>A failing build\<close>

text \<open>
  What the \<open>except\<close> clause does achieve: when the output of a failed build can be decoded,
  the iteration sets the failure flag and raises nothing, so the loop goes on to the next
  line.
\<close>

lemma failed_build_continues:
  assumes "parse_line line = Inr (name, version, path)" "pulls_succeed e" "\<not> dry_run a"
    and "output_decodes e" "raised s = None"
    and "builds_start e" "\<not> has_nul (cmd a name version path)"
    and "\<forall>h c. fst (run_result e h c) \<noteq> 0"
  shows "raised (iteration e a s line) = None" and "fail (iteration e a s line)"
proof -
  have nz: "rc \<noteq> 0" if "run_result e h c = (rc, out)" for h c rc out
    using assms(8) that by (metis fst_conv)
  show "raised (iteration e a s line) = None"
    by (rule iteration_build(1) [OF assms(1-7)])
  show "fail (iteration e a s line)"
    using assms(1,2,3,5,6,7)
    by (auto simp: iteration_def Let_def pulls_succeed_def builds_start_def
        split: prod.splits dest: nz)
qed

text \<open>
  Claim C1 says that a build which exits with a status other than 0 never ends the run.
  The handler of that failure decodes the captured output, and the decoding can raise.
  Here both lines are well formed and the first build exits with status 1 after printing
  the single byte 255: the failure flag is set, \<open>UnicodeDecodeError\<close> leaves the handler,
  the second record is never attempted, and the exit status is 1.
\<close>

theorem undecodable_failure_aborts:
  "list_all wf_line two_records
   \<and> launched (trace (main garbled_failure npg_args two_records))
       = [plan npg_args (''samtools 1.9 /recipes/samtools'' @ [CHR 0x0A])]
   \<and> fail (main garbled_failure npg_args two_records)
   \<and> raised (main garbled_failure npg_args two_records) = Some UnicodeDecodeError
   \<and> exit_status (main garbled_failure npg_args two_records) = 1"
  by code_simp

end
